theory Spec2Isabelle
  imports Main "HOL-Library.Sublist"
begin

section \<open>Branded image generation workflow: the model\<close>

text \<open>
  A shallow embedding of \<^verbatim>\<open>image_gen_main.py\<close> (class \<^verbatim>\<open>BrandedImageGenerator\<close>).
  Python exceptions are values of type \<open>error\<close>; a method that may raise returns
  \<open>error + 'a\<close>. The file system, the clock and the image library are an explicit
  environment and an explicit world state that is passed through the calls.
  Output written with \<^verbatim>\<open>print\<close> is not modelled.
\<close>

subsection \<open>Exceptions\<close>

datatype error =
    KeyError string
  | IndexError
  | ZeroDivisionError
  | ValueError string
  | OSError string
  | MemoryError

subsection \<open>Strings\<close>

text \<open>\<^verbatim>\<open>sep.join(xs)\<close>\<close>

fun py_join :: "string \<Rightarrow> string list \<Rightarrow> string" where
  "py_join sep [] = []"
| "py_join sep [x] = x"
| "py_join sep (x # y # ys) = x @ sep @ py_join sep (y # ys)"

text \<open>\<^verbatim>\<open>str(n)\<close> for a natural number, and for an integer.\<close>

definition digit_char :: "nat \<Rightarrow> char" where
  "digit_char d = ''0123456789'' ! d"

fun str_nat :: "nat \<Rightarrow> string" where
  "str_nat n = (if n < 10 then [digit_char n] else str_nat (n div 10) @ [digit_char (n mod 10)])"

declare str_nat.simps [simp del]

definition str_int :: "int \<Rightarrow> string" where
  "str_int i = (if i < 0 then CHR ''-'' # str_nat (nat (- i)) else str_nat (nat i))"

text \<open>Zero padding to a minimal width, as \<^verbatim>\<open>%m\<close>, \<^verbatim>\<open>%d\<close>, \<^verbatim>\<open>%H\<close> do.\<close>

definition zpad :: "nat \<Rightarrow> nat \<Rightarrow> string" where
  "zpad k n = replicate (k - length (str_nat n)) CHR ''0'' @ str_nat n"

text \<open>
  \<^verbatim>\<open>os.path.join(a, *p)\<close> of \<^verbatim>\<open>posixpath\<close>: a component that starts with the separator
  discards what came before it; otherwise one separator is inserted unless the path so far
  is empty or already ends with one.
\<close>

definition join_step :: "string \<Rightarrow> string \<Rightarrow> string" where
  "join_step path b =
     (if b \<noteq> [] \<and> hd b = CHR ''/'' then b
      else if path = [] \<or> last path = CHR ''/'' then path @ b
      else path @ ''/'' @ b)"

definition os_path_join :: "string \<Rightarrow> string list \<Rightarrow> string" where
  "os_path_join a p = foldl join_step a p"

text \<open>\<^verbatim>\<open>posixpath.isabs\<close>\<close>

definition isabs :: "string \<Rightarrow> bool" where
  "isabs p = (p \<noteq> [] \<and> hd p = CHR ''/'')"

subsection \<open>Configuration\<close>

text \<open>
  The parsed \<^verbatim>\<open>config.json\<close>. The four keys that \<^verbatim>\<open>load_config\<close> reads with
  \<^verbatim>\<open>[...]\<close> may be absent (\<open>None\<close>, a \<^verbatim>\<open>KeyError\<close> when read); \<^verbatim>\<open>logo_path\<close> is read
  with \<^verbatim>\<open>.get\<close>. The other keys are taken to be present and of the expected JSON type.
\<close>

record size_config =
  sz_name :: string
  sz_width :: int
  sz_height :: int

record brand_section =
  colors :: "string list option"
  style_keywords :: string
  brand_logo_path :: "string option"

record image_variants_section =
  format :: string
  sizes :: "size_config list"

record storage_section =
  output_directory :: "string option"

record config_json =
  brand :: "brand_section option"
  image_variants :: image_variants_section
  storage :: "storage_section option"

text \<open>The attributes of a \<^verbatim>\<open>BrandedImageGenerator\<close> instance set by \<^verbatim>\<open>load_config\<close>.\<close>

record generator =
  config :: config_json
  brand_colors :: "string list"
  output_dir :: string
  logo_path :: "string option"

text \<open>
  \<^verbatim>\<open>load_config\<close>, after \<^verbatim>\<open>open\<close> and \<^verbatim>\<open>json.load\<close>: the outcome of reading and parsing the
  file is the argument (\<open>Inl\<close> when the file is missing or is not JSON).
\<close>

definition load_config :: "error + config_json \<Rightarrow> error + generator" where
  "load_config parsed =
     (case parsed of
        Inl e \<Rightarrow> Inl e
      | Inr c \<Rightarrow>
          (case brand c of
             None \<Rightarrow> Inl (KeyError ''brand'')
           | Some b \<Rightarrow>
               (case colors b of
                  None \<Rightarrow> Inl (KeyError ''colors'')
                | Some cs \<Rightarrow>
                    (case storage c of
                       None \<Rightarrow> Inl (KeyError ''storage'')
                     | Some s \<Rightarrow>
                         (case output_directory s of
                            None \<Rightarrow> Inl (KeyError ''output_directory'')
                          | Some d \<Rightarrow>
                              Inr \<lparr>config = c, brand_colors = cs, output_dir = d,
                                   logo_path = brand_logo_path b\<rparr>)))))"

subsection \<open>Prompt enhancement\<close>

definition enhance_prompt_with_brand :: "generator \<Rightarrow> string \<Rightarrow> error + string" where
  "enhance_prompt_with_brand self user_prompt =
     (case brand (config self) of
        None \<Rightarrow> Inl (KeyError ''brand'')
      | Some b \<Rightarrow>
          (let brand_style = style_keywords b;
               color_desc = ''using colors: '' @ py_join '', '' (brand_colors self)
           in Inr (user_prompt @ '', '' @ brand_style @ '', '' @ color_desc
                   @ '', professional marketing image, high quality, detailed'')))"

subsection \<open>Clock\<close>

record datetime =
  dt_year :: nat
  dt_month :: nat
  dt_day :: nat
  dt_hour :: nat
  dt_minute :: nat
  dt_second :: nat
  dt_microsecond :: nat

text \<open>\<^verbatim>\<open>strftime('%Y%m%d_%H%M%S')\<close>, for a year of at most four digits.\<close>

definition strftime_stamp :: "datetime \<Rightarrow> string" where
  "strftime_stamp d =
     zpad 4 (dt_year d) @ zpad 2 (dt_month d) @ zpad 2 (dt_day d) @ ''_''
     @ zpad 2 (dt_hour d) @ zpad 2 (dt_minute d) @ zpad 2 (dt_second d)"

text \<open>\<^verbatim>\<open>isoformat()\<close>: the microseconds are printed only when they are not zero.\<close>

definition isoformat :: "datetime \<Rightarrow> string" where
  "isoformat d =
     zpad 4 (dt_year d) @ ''-'' @ zpad 2 (dt_month d) @ ''-'' @ zpad 2 (dt_day d) @ ''T''
     @ zpad 2 (dt_hour d) @ '':'' @ zpad 2 (dt_minute d) @ '':'' @ zpad 2 (dt_second d)
     @ (if dt_microsecond d = 0 then [] else ''.'' @ zpad 6 (dt_microsecond d))"

subsection \<open>Images\<close>

text \<open>
  An image has a size, a mode and a raster. The raster is kept symbolic: its term records
  which operations of the image library produced it, so that two images are equal in the
  model only when they were produced the same way from the same inputs.
\<close>

datatype mode = RGB | RGBA

datatype pixels =
    PxNew string
  | PxLine pixels nat string
  | PxText pixels string string
  | PxFile string
  | PxConvert mode pixels
  | PxLanczos pixels nat nat
  | PxPaste pixels pixels int int

record image =
  img_width :: nat
  img_height :: nat
  img_mode :: mode
  img_pixels :: pixels

subsection \<open>Environment and world\<close>

text \<open>
  What the program cannot decide itself is read from the environment: the successive
  readings of the clock, whether the \<open>k\<close>-th call of \<^verbatim>\<open>Image.new\<close> fails (a colour name the
  library does not know, no memory), which paths exist, what \<^verbatim>\<open>Image.open\<close> yields, for
  which paths a write fails, and how a path resolves against the working directory.
\<close>

record env =
  clock :: "nat \<Rightarrow> datetime"
  new_fault :: "nat \<Rightarrow> string \<Rightarrow> error option"
  path_exists :: "string \<Rightarrow> bool"
  image_open :: "string \<Rightarrow> error + image"
  write_fault :: "string \<Rightarrow> error option"
  abspath :: "string \<Rightarrow> string"

text \<open>
  The world changes: the number of clock readings taken, the number of calls of
  \<^verbatim>\<open>Image.new\<close> made, and the files written so far, oldest first.
\<close>

record world =
  ticks :: nat
  new_calls :: nat
  saved :: "(string \<times> image) list"

definition datetime_now :: "env \<Rightarrow> world \<Rightarrow> datetime \<times> world" where
  "datetime_now ev w = (clock ev (ticks w), w\<lparr>ticks := Suc (ticks w)\<rparr>)"

subsection \<open>The image library\<close>

text \<open>\<^verbatim>\<open>Image.new('RGB', (w, h), color=c)\<close>\<close>

definition Image_new :: "env \<Rightarrow> nat \<times> nat \<Rightarrow> string \<Rightarrow> world \<Rightarrow> (error + image) \<times> world" where
  "Image_new ev sz c w =
     (case new_fault ev (new_calls w) c of
        Some e \<Rightarrow> (Inl e, w\<lparr>new_calls := Suc (new_calls w)\<rparr>)
      | None \<Rightarrow>
          (Inr \<lparr>img_width = fst sz, img_height = snd sz, img_mode = RGB, img_pixels = PxNew c\<rparr>,
           w\<lparr>new_calls := Suc (new_calls w)\<rparr>))"

text \<open>\<^verbatim>\<open>img.copy()\<close>: images are values here, a copy is the image itself.\<close>

definition copy :: "image \<Rightarrow> image" where
  "copy img = img"

text \<open>\<^verbatim>\<open>img.convert(m)\<close> keeps the size.\<close>

definition convert :: "mode \<Rightarrow> image \<Rightarrow> image" where
  "convert m img = img\<lparr>img_mode := m, img_pixels := PxConvert m (img_pixels img)\<rparr>"

text \<open>
  \<^verbatim>\<open>img.resize((w, h), Image.Resampling.LANCZOS)\<close>: the library refuses a width or a height
  below one with a \<^verbatim>\<open>ValueError\<close>; otherwise the result has the requested size. The raster
  term records the call also when the requested size is the size the image already has.
\<close>

definition resize :: "image \<Rightarrow> int \<times> int \<Rightarrow> error + image" where
  "resize img sz =
     (if fst sz < 1 \<or> snd sz < 1 then Inl (ValueError ''height and width must be > 0'')
      else Inr (img\<lparr>img_width := nat (fst sz), img_height := nat (snd sz),
                   img_pixels := PxLanczos (img_pixels img) (nat (fst sz)) (nat (snd sz))\<rparr>))"

text \<open>\<^verbatim>\<open>base.paste(logo, position, logo)\<close>: the base keeps its size and its mode.\<close>

definition paste :: "image \<Rightarrow> image \<Rightarrow> int \<times> int \<Rightarrow> image" where
  "paste base lg pos = base\<lparr>img_pixels := PxPaste (img_pixels base) (img_pixels lg) (fst pos) (snd pos)\<rparr>"

text \<open>\<^verbatim>\<open>img.save(path, quality=95)\<close>\<close>

definition save :: "env \<Rightarrow> image \<Rightarrow> string \<Rightarrow> world \<Rightarrow> (error + unit) \<times> world" where
  "save ev img path w =
     (case write_fault ev path of
        Some e \<Rightarrow> (Inl e, w)
      | None \<Rightarrow> (Inr (), w\<lparr>saved := saved w @ [(path, img)]\<rparr>))"

subsection \<open>Floating point\<close>

text \<open>
  A finite, non-negative Python float (IEEE 754 binary64) with value \<open>mant * 2 ^ expo\<close>.
  The numbers that occur here are quotients and products of image dimensions, far from
  the subnormal range and from overflow, which are not modelled.
\<close>

datatype double = Dbl (mant: nat) (expo: int)

fun bitlen :: "nat \<Rightarrow> nat" where
  "bitlen n = (if n = 0 then 0 else Suc (bitlen (n div 2)))"

declare bitlen.simps [simp del]

text \<open>The integer nearest to \<open>n / d\<close>, a tie going to the even one.\<close>

definition round_half_even :: "nat \<Rightarrow> nat \<Rightarrow> nat" where
  "round_half_even n d =
     (let q = n div d; r = n mod d
      in if 2 * r < d then q
         else if d < 2 * r then q + 1
         else if even q then q else q + 1)"

text \<open>
  The binary64 number nearest to \<open>n / d\<close> for \<open>d > 0\<close>: the exponent is chosen so that the
  scaled quotient lies between \<open>2 ^ 52\<close> and \<open>2 ^ 53\<close>, and is then rounded to an integer.
\<close>

definition to_double :: "nat \<Rightarrow> nat \<Rightarrow> double" where
  "to_double n d =
     (if n = 0 then Dbl 0 0
      else
        let k = int (bitlen n) - int (bitlen d);
            e = (if (if 0 \<le> k then d * 2 ^ nat k \<le> n else d \<le> n * 2 ^ nat (- k))
                 then k - 52 else k - 53)
        in if 0 \<le> e then Dbl (round_half_even n (d * 2 ^ nat e)) e
           else Dbl (round_half_even (n * 2 ^ nat (- e)) d) e)"

text \<open>\<^verbatim>\<open>a / b\<close> on integers \<open>a \<ge> 0\<close> and \<open>b > 0\<close>\<close>

definition truediv :: "nat \<Rightarrow> nat \<Rightarrow> double" where
  "truediv a b = to_double a b"

text \<open>\<^verbatim>\<open>h * x\<close> for an integer \<open>h \<ge> 0\<close> and a float \<open>x\<close>\<close>

definition mul_int_double :: "nat \<Rightarrow> double \<Rightarrow> double" where
  "mul_int_double h x =
     (if 0 \<le> expo x then to_double (h * mant x * 2 ^ nat (expo x)) 1
      else to_double (h * mant x) (2 ^ nat (- expo x)))"

text \<open>\<^verbatim>\<open>int(x)\<close>: truncation\<close>

definition int_of_double :: "double \<Rightarrow> nat" where
  "int_of_double x =
     (if 0 \<le> expo x then mant x * 2 ^ nat (expo x) else mant x div 2 ^ nat (- expo x))"

subsection \<open>The base image\<close>

text \<open>The loop of \<^verbatim>\<open>create_base_image\<close> that draws one line per row.\<close>

definition draw_rows :: "pixels \<Rightarrow> string \<Rightarrow> nat \<Rightarrow> pixels" where
  "draw_rows px c h = foldl (\<lambda>p i. PxLine p i c) px [0..<h]"

text \<open>
  \<^verbatim>\<open>create_base_image\<close>: \<^verbatim>\<open>self.brand_colors[0]\<close> raises \<^verbatim>\<open>IndexError\<close> on an empty list. The
  argument \<open>prompt\<close> is not used by the source either. The position of the text depends
  on the font only and is left out of the raster term.
\<close>

definition create_base_image :: "env \<Rightarrow> generator \<Rightarrow> string \<Rightarrow> world \<Rightarrow> (error + image) \<times> world" where
  "create_base_image ev self prompt w =
     (case brand_colors self of
        [] \<Rightarrow> (Inl IndexError, w)
      | c # _ \<Rightarrow>
          (case Image_new ev (1024, 1024) c w of
             (Inl e, w') \<Rightarrow> (Inl e, w')
           | (Inr img, w') \<Rightarrow>
               (Inr (img\<lparr>img_pixels :=
                         PxText (draw_rows (img_pixels img) c 1024) ''Generated Image'' ''white''\<rparr>),
                w')))"

text \<open>\<^verbatim>\<open>generate_image_with_gemini\<close>: every exception of the body is caught, the result is \<^verbatim>\<open>None\<close>.\<close>

definition generate_image_with_gemini :: "env \<Rightarrow> generator \<Rightarrow> string \<Rightarrow> world \<Rightarrow> image option \<times> world" where
  "generate_image_with_gemini ev self prompt w =
     (case enhance_prompt_with_brand self prompt of
        Inl e \<Rightarrow> (None, w)
      | Inr enhanced_prompt \<Rightarrow>
          (case create_base_image ev self enhanced_prompt w of
             (Inl e, w') \<Rightarrow> (None, w')
           | (Inr img, w') \<Rightarrow> (Some img, w')))"

subsection \<open>Branding\<close>

text \<open>The body of the \<^verbatim>\<open>try\<close> block of \<^verbatim>\<open>apply_branding\<close>, for the logo path \<open>p\<close>.\<close>

definition overlay_logo :: "env \<Rightarrow> string \<Rightarrow> image \<Rightarrow> error + image" where
  "overlay_logo ev p img =
     (case image_open ev p of
        Inl e \<Rightarrow> Inl e
      | Inr opened \<Rightarrow>
          (let logo = convert RGBA opened;
               logo_width = img_width img div 10
           in if img_width logo = 0 then Inl ZeroDivisionError
              else
                (let logo_ratio = truediv logo_width (img_width logo);
                     logo_height = int_of_double (mul_int_double (img_height logo) logo_ratio)
                 in case resize logo (int logo_width, int logo_height) of
                      Inl e \<Rightarrow> Inl e
                    | Inr logo' \<Rightarrow>
                        (let position = (int (img_width img) - int logo_width - 20,
                                         int (img_height img) - int logo_height - 20);
                             img_copy = paste (convert RGBA (copy img)) logo' position
                         in Inr (convert RGB img_copy)))))"

text \<open>
  \<^verbatim>\<open>apply_branding\<close>: \<^verbatim>\<open>not self.logo_path\<close> holds for \<^verbatim>\<open>None\<close> and for the empty string; an
  exception of the body is caught and the input image is returned.
\<close>

definition apply_branding :: "env \<Rightarrow> generator \<Rightarrow> image \<Rightarrow> image" where
  "apply_branding ev self img =
     (case logo_path self of
        None \<Rightarrow> img
      | Some p \<Rightarrow>
          if p = [] \<or> \<not> path_exists ev p then img
          else (case overlay_logo ev p img of Inl e \<Rightarrow> img | Inr branded \<Rightarrow> branded))"

subsection \<open>Variants\<close>

record variant =
  v_name :: string
  v_size :: string
  v_path :: string
  v_url :: string

record generation_result =
  r_prompt :: string
  r_timestamp :: string
  r_variants :: "variant list"

text \<open>The file name of one variant, line 142 of the source.\<close>

definition variant_filename :: "generator \<Rightarrow> string \<Rightarrow> string \<Rightarrow> string \<Rightarrow> string" where
  "variant_filename self prompt_name name timestamp =
     prompt_name @ ''_'' @ name @ ''_'' @ timestamp @ ''.'' @ format (image_variants (config self))"

text \<open>The loop of \<^verbatim>\<open>generate_variants\<close>; an exception of \<^verbatim>\<open>resize\<close> or \<^verbatim>\<open>save\<close> leaves it.\<close>

fun variants_loop ::
  "env \<Rightarrow> generator \<Rightarrow> image \<Rightarrow> string \<Rightarrow> string \<Rightarrow> size_config list \<Rightarrow> variant list \<Rightarrow> world
    \<Rightarrow> (error + variant list) \<times> world" where
  "variants_loop ev self base_image prompt_name timestamp [] variants w = (Inr variants, w)"
| "variants_loop ev self base_image prompt_name timestamp (size_cfg # rest) variants w =
     (let name = sz_name size_cfg; width = sz_width size_cfg; height = sz_height size_cfg
      in case resize base_image (width, height) of
           Inl e \<Rightarrow> (Inl e, w)
         | Inr resized_img \<Rightarrow>
             (let filename = variant_filename self prompt_name name timestamp;
                  filepath = os_path_join (output_dir self) [name, filename]
              in case save ev resized_img filepath w of
                   (Inl e, w') \<Rightarrow> (Inl e, w')
                 | (Inr u, w') \<Rightarrow>
                     variants_loop ev self base_image prompt_name timestamp rest
                       (variants @ [\<lparr>v_name = name,
                                      v_size = str_int width @ ''x'' @ str_int height,
                                      v_path = filepath,
                                      v_url = ''file://'' @ abspath ev filepath\<rparr>])
                       w'))"

definition generate_variants ::
  "env \<Rightarrow> generator \<Rightarrow> image \<Rightarrow> string \<Rightarrow> world \<Rightarrow> (error + variant list) \<times> world" where
  "generate_variants ev self base_image prompt_name w =
     (let (now, w1) = datetime_now ev w;
          timestamp = strftime_stamp now
      in variants_loop ev self base_image prompt_name timestamp
           (sizes (image_variants (config self))) [] w1)"

subsection \<open>One prompt, and a batch\<close>

text \<open>Lines 161 and 162: \<^verbatim>\<open>not prompt_name\<close> holds for \<^verbatim>\<open>None\<close> and for the empty string.\<close>

definition resolve_prompt_name :: "string \<Rightarrow> string option \<Rightarrow> string" where
  "resolve_prompt_name prompt prompt_name =
     (case prompt_name of
        None \<Rightarrow> take 30 (map (\<lambda>c. if c = CHR '' '' then CHR ''_'' else c) prompt)
      | Some n \<Rightarrow>
          if n = [] then take 30 (map (\<lambda>c. if c = CHR '' '' then CHR ''_'' else c) prompt)
          else n)"

definition process_prompt ::
  "env \<Rightarrow> generator \<Rightarrow> string \<Rightarrow> string option \<Rightarrow> world
    \<Rightarrow> (error + generation_result option) \<times> world" where
  "process_prompt ev self prompt prompt_name w =
     (let prompt_name' = resolve_prompt_name prompt prompt_name
      in case generate_image_with_gemini ev self prompt w of
           (None, w1) \<Rightarrow> (Inr None, w1)
         | (Some base_image, w1) \<Rightarrow>
             (let branded_image = apply_branding ev self base_image
              in case generate_variants ev self branded_image prompt_name' w1 of
                   (Inl e, w2) \<Rightarrow> (Inl e, w2)
                 | (Inr variants, w2) \<Rightarrow>
                     (let (now, w3) = datetime_now ev w2
                      in (Inr (Some \<lparr>r_prompt = prompt, r_timestamp = isoformat now,
                                     r_variants = variants\<rparr>), w3))))"

text \<open>An entry of a batch is a string or a dictionary from strings to strings.\<close>

datatype prompt_data = PromptStr string | PromptDict "string \<rightharpoonup> string"

text \<open>Lines 193 to 198: the prompt and the name of the \<open>i\<close>-th entry.\<close>

definition prompt_and_name :: "nat \<Rightarrow> prompt_data \<Rightarrow> error + string \<times> string" where
  "prompt_and_name i prompt_data =
     (case prompt_data of
        PromptDict d \<Rightarrow>
          (case d ''prompt'' of
             None \<Rightarrow> Inl (KeyError ''prompt'')
           | Some prompt \<Rightarrow>
               Inr (prompt, case d ''name'' of None \<Rightarrow> ''prompt_'' @ str_nat i | Some n \<Rightarrow> n))
      | PromptStr prompt \<Rightarrow> Inr (prompt, ''prompt_'' @ str_nat i))"

fun batch_loop ::
  "env \<Rightarrow> generator \<Rightarrow> (nat \<times> prompt_data) list \<Rightarrow> generation_result list \<Rightarrow> world
    \<Rightarrow> (error + generation_result list) \<times> world" where
  "batch_loop ev self [] results w = (Inr results, w)"
| "batch_loop ev self ((i, prompt_data) # rest) results w =
     (case prompt_and_name i prompt_data of
        Inl e \<Rightarrow> (Inl e, w)
      | Inr (prompt, name) \<Rightarrow>
          (case process_prompt ev self prompt (Some name) w of
             (Inl e, w') \<Rightarrow> (Inl e, w')
           | (Inr None, w') \<Rightarrow> batch_loop ev self rest results w'
           | (Inr (Some result), w') \<Rightarrow> batch_loop ev self rest (results @ [result]) w'))"

text \<open>\<^verbatim>\<open>batch_process\<close>: \<^verbatim>\<open>enumerate(prompts, 1)\<close> numbers the entries from one.\<close>

definition batch_process ::
  "env \<Rightarrow> generator \<Rightarrow> prompt_data list \<Rightarrow> world \<Rightarrow> (error + generation_result list) \<times> world" where
  "batch_process ev self prompts w = batch_loop ev self (enumerate 1 prompts) [] w"

text \<open>The text of the prompt of an entry, when it has one (lines 194 and 197).\<close>

definition prompt_text :: "prompt_data \<Rightarrow> string option" where
  "prompt_text pd = (case pd of PromptStr s \<Rightarrow> Some s | PromptDict d \<Rightarrow> d ''prompt'')"

subsection \<open>Concrete inputs\<close>

text \<open>
  A configuration in the shape that \<^verbatim>\<open>setup_script.py\<close> writes, with two of its sizes, and
  environments in which nothing fails, in which the second call of \<^verbatim>\<open>Image.new\<close> fails, and
  in which the directory of one variant cannot be written.
\<close>

definition demo_config :: config_json where
  "demo_config =
     \<lparr>brand = Some \<lparr>colors = Some [''#0066CC'', ''#00A3E0'', ''#FFFFFF''],
                     style_keywords = ''modern, clean'',
                     brand_logo_path = None\<rparr>,
      image_variants = \<lparr>format = ''jpg'',
                         sizes = [\<lparr>sz_name = ''thumbnail'', sz_width = 400, sz_height = 400\<rparr>,
                                  \<lparr>sz_name = ''email_header'', sz_width = 600, sz_height = 200\<rparr>]\<rparr>,
      storage = Some \<lparr>output_directory = Some ''generated_images''\<rparr>\<rparr>"

definition demo_generator :: generator where
  "demo_generator =
     \<lparr>config = demo_config, brand_colors = [''#0066CC'', ''#00A3E0'', ''#FFFFFF''],
      output_dir = ''generated_images'', logo_path = None\<rparr>"

definition demo_clock :: "nat \<Rightarrow> datetime" where
  "demo_clock n =
     \<lparr>dt_year = 2026, dt_month = 1, dt_day = 2, dt_hour = 3, dt_minute = 4, dt_second = 5 + n,
      dt_microsecond = 0\<rparr>"

definition demo_logo :: image where
  "demo_logo = \<lparr>img_width = 408, img_height = 7, img_mode = RGBA, img_pixels = PxFile ''assets/logo.png''\<rparr>"

definition demo_env :: env where
  "demo_env =
     \<lparr>clock = demo_clock,
      new_fault = (\<lambda>k c. None),
      path_exists = (\<lambda>p. p = ''assets/logo.png'' \<or> p = ''notes.txt''),
      image_open = (\<lambda>p. if p = ''assets/logo.png'' then Inr demo_logo
                         else Inl (OSError ''cannot identify image file'')),
      write_fault = (\<lambda>p. None),
      abspath = (\<lambda>p. if isabs p then p else ''/srv/app/'' @ p)\<rparr>"

definition flaky_env :: env where
  "flaky_env = demo_env\<lparr>new_fault := (\<lambda>k c. if k = 1 then Some MemoryError else None)\<rparr>"

definition readonly_env :: env where
  "readonly_env =
     demo_env\<lparr>write_fault := (\<lambda>p. if prefix ''generated_images/email_header/'' p
                                   then Some (OSError ''Permission denied'') else None)\<rparr>"

definition demo_world :: world where
  "demo_world = \<lparr>ticks = 0, new_calls = 0, saved = []\<rparr>"

definition demo_image :: image where
  "demo_image = \<lparr>img_width = 1024, img_height = 1024, img_mode = RGB, img_pixels = PxNew ''#0066CC''\<rparr>"

text \<open>Two configurations that break the invariants of the data model.\<close>

definition nocolor_config :: config_json where
  "nocolor_config =
     demo_config\<lparr>brand := Some \<lparr>colors = Some [], style_keywords = ''modern, clean'',
                                  brand_logo_path = None\<rparr>\<rparr>"

definition twin_config :: config_json where
  "twin_config =
     demo_config\<lparr>image_variants :=
       \<lparr>format = ''jpg'',
        sizes = [\<lparr>sz_name = ''thumbnail'', sz_width = 400, sz_height = 400\<rparr>,
                 \<lparr>sz_name = ''thumbnail'', sz_width = 600, sz_height = 200\<rparr>]\<rparr>\<rparr>"

text \<open>What the export of the demonstration image under the name \<open>summer_sale\<close> returns.\<close>

definition demo_variants :: "variant list" where
  "demo_variants =
     [\<lparr>v_name = ''thumbnail'', v_size = ''400x400'',
       v_path = ''generated_images/thumbnail/summer_sale_thumbnail_20260102_030405.jpg'',
       v_url = ''file:///srv/app/generated_images/thumbnail/summer_sale_thumbnail_20260102_030405.jpg''\<rparr>,
      \<lparr>v_name = ''email_header'', v_size = ''600x200'',
       v_path = ''generated_images/email_header/summer_sale_email_header_20260102_030405.jpg'',
       v_url = ''file:///srv/app/generated_images/email_header/summer_sale_email_header_20260102_030405.jpg''\<rparr>]"

section \<open>Properties\<close>

subsection \<open>Strings\<close>

lemma sublist_py_join: "c \<in> set cs \<Longrightarrow> sublist c (py_join sep cs)"
proof (induction sep cs rule: py_join.induct)
  case (1 sep)
  then show ?case by simp
next
  case (2 sep x)
  then show ?case by simp
next
  case (3 sep x y ys)
  show ?case
  proof (cases "c = x")
    case True
    have "sublist x ([] @ x @ (sep @ py_join sep (y # ys)))"
      by (rule sublist_appendI)
    with True show ?thesis by simp
  next
    case False
    with 3 have "sublist c (py_join sep (y # ys))" by simp
    then obtain ps ss where "py_join sep (y # ys) = ps @ c @ ss"
      by (auto simp: sublist_def)
    then have "py_join sep (x # y # ys) = (x @ sep @ ps) @ c @ ss" by simp
    then show ?thesis unfolding sublist_def by blast
  qed
qed

subsection \<open>The enhanced prompt\<close>

text \<open>
  C1. For a generator whose configuration has a brand section, and every user prompt,
  \<open>enhance_prompt_with_brand\<close> returns the user prompt, the style keywords, the colours
  joined with a comma and a space after \<open>using colors:\<close>, and the fixed qualifiers, in
  this order and separated by a comma and a space. The result begins with the user prompt
  and contains every brand colour as a contiguous substring.
\<close>

theorem enhance_prompt_with_brand_concat:
  assumes "brand (config self) = Some b"
  shows "\<exists>r. enhance_prompt_with_brand self p = Inr r
           \<and> r = p @ '', '' @ style_keywords b @ '', using colors: ''
                   @ py_join '', '' (brand_colors self)
                   @ '', professional marketing image, high quality, detailed''
           \<and> prefix p r
           \<and> (\<forall>c \<in> set (brand_colors self). sublist c r)"
proof -
  let ?r = "p @ '', '' @ style_keywords b @ '', using colors: ''
              @ py_join '', '' (brand_colors self)
              @ '', professional marketing image, high quality, detailed''"
  have eq: "enhance_prompt_with_brand self p = Inr ?r"
    using assms by (simp add: enhance_prompt_with_brand_def)
  have sub: "sublist c ?r" if "c \<in> set (brand_colors self)" for c
  proof -
    from that obtain ps ss where "py_join '', '' (brand_colors self) = ps @ c @ ss"
      using sublist_py_join [of c "brand_colors self" "'', ''"] by (auto simp: sublist_def)
    then have "?r = (p @ '', '' @ style_keywords b @ '', using colors: '' @ ps) @ c
                     @ (ss @ '', professional marketing image, high quality, detailed'')"
      by simp
    then show ?thesis unfolding sublist_def by blast
  qed
  have "prefix p ?r" by simp
  with eq sub show ?thesis by blast
qed

text \<open>The scenario of the specification: prompt \<open>Summer sale\<close>, three colours.\<close>

theorem enhance_prompt_with_brand_concat_witness:
  "enhance_prompt_with_brand
     \<lparr>config = \<lparr>brand = Some \<lparr>colors = Some [''#0066CC'', ''#00A3E0'', ''#FFFFFF''],
                               style_keywords = ''modern, clean'',
                               brand_logo_path = None\<rparr>,
                 image_variants = \<lparr>format = ''png'',
                                    sizes = [\<lparr>sz_name = ''thumb'', sz_width = 400, sz_height = 400\<rparr>]\<rparr>,
                 storage = Some \<lparr>output_directory = Some ''out''\<rparr>\<rparr>,
      brand_colors = [''#0066CC'', ''#00A3E0'', ''#FFFFFF''],
      output_dir = ''out'', logo_path = None\<rparr>
     ''Summer sale''
   = Inr ''Summer sale, modern, clean, using colors: #0066CC, #00A3E0, #FFFFFF, professional marketing image, high quality, detailed''"
  using enhance_prompt_with_brand_concat
    [of "\<lparr>config = \<lparr>brand = Some \<lparr>colors = Some [''#0066CC'', ''#00A3E0'', ''#FFFFFF''],
                               style_keywords = ''modern, clean'',
                               brand_logo_path = None\<rparr>,
                 image_variants = \<lparr>format = ''png'',
                                    sizes = [\<lparr>sz_name = ''thumb'', sz_width = 400, sz_height = 400\<rparr>]\<rparr>,
                 storage = Some \<lparr>output_directory = Some ''out''\<rparr>\<rparr>,
      brand_colors = [''#0066CC'', ''#00A3E0'', ''#FFFFFF''],
      output_dir = ''out'', logo_path = None\<rparr>"
       "\<lparr>colors = Some [''#0066CC'', ''#00A3E0'', ''#FFFFFF''],
         style_keywords = ''modern, clean'', brand_logo_path = None\<rparr>"
       "''Summer sale''"]
  by simp

subsection \<open>Evaluation on literals\<close>

lemma str_nat_numeral:
  "str_nat (numeral k) =
     (if (numeral k :: nat) < 10 then [digit_char (numeral k)]
      else str_nat (numeral k div 10) @ [digit_char (numeral k mod 10)])"
  by (rule str_nat.simps)

lemma str_nat_small:
  "str_nat 0 = ''0''" "str_nat 1 = ''1''" "str_nat (Suc 0) = ''1''"
  "str_nat (Suc (Suc 0)) = ''2''" "str_nat (Suc (Suc (Suc 0))) = ''3''"
  by (simp_all add: str_nat.simps digit_char_def)

lemma bitlen_numeral: "bitlen (numeral k) = Suc (bitlen (numeral k div 2))"
  by (subst bitlen.simps) simp

lemma bitlen_small: "bitlen 0 = 0" "bitlen 1 = 1" "bitlen (Suc 0) = 1"
  by (simp_all add: bitlen.simps)

lemmas str_simps = str_nat_numeral str_nat_small digit_char_def zpad_def str_int_def

lemmas path_simps = os_path_join_def join_step_def isabs_def

lemmas float_simps = int_of_double_def mul_int_double_def truediv_def to_double_def
  bitlen_numeral bitlen_small round_half_even_def

lemmas demo_simps = demo_config_def demo_generator_def demo_clock_def demo_logo_def demo_env_def
  flaky_env_def readonly_env_def demo_world_def demo_image_def

lemmas run_simps = generate_variants_def datetime_now_def strftime_stamp_def isoformat_def
  variant_filename_def resize_def save_def Image_new_def create_base_image_def
  generate_image_with_gemini_def enhance_prompt_with_brand_def apply_branding_def
  overlay_logo_def convert_def copy_def paste_def
  process_prompt_def resolve_prompt_name_def prompt_and_name_def batch_process_def

subsection \<open>Branding without a usable logo\<close>

text \<open>
  C5. When no logo path is configured (\<^verbatim>\<open>None\<close> or the empty string), when the path does
  not exist, or when the file at the path cannot be opened as an image, \<open>apply_branding\<close>
  returns its input image itself, and raises nothing.
\<close>

theorem apply_branding_without_logo:
  assumes "logo_path self = None \<or> logo_path self = Some [] \<or>
           (\<exists>p. logo_path self = Some p \<and> (\<not> path_exists ev p \<or> (\<exists>e. image_open ev p = Inl e)))"
  shows "apply_branding ev self img = img"
  using assms by (auto simp: apply_branding_def overlay_logo_def split: option.splits)

text \<open>A path that does not exist, a file that is no image, and no logo path at all.\<close>

theorem apply_branding_without_logo_witness:
  "apply_branding demo_env (demo_generator\<lparr>logo_path := Some ''missing.png''\<rparr>) demo_image = demo_image
   \<and> apply_branding demo_env (demo_generator\<lparr>logo_path := Some ''notes.txt''\<rparr>) demo_image = demo_image
   \<and> apply_branding demo_env demo_generator demo_image = demo_image"
proof (intro conjI)
  show "apply_branding demo_env (demo_generator\<lparr>logo_path := Some ''missing.png''\<rparr>) demo_image = demo_image"
    by (rule apply_branding_without_logo) (simp add: demo_env_def)
  show "apply_branding demo_env (demo_generator\<lparr>logo_path := Some ''notes.txt''\<rparr>) demo_image = demo_image"
    by (rule apply_branding_without_logo) (simp add: demo_env_def)
  show "apply_branding demo_env demo_generator demo_image = demo_image"
    by (rule apply_branding_without_logo) (simp add: demo_generator_def)
qed

subsection \<open>Branding keeps the size\<close>

text \<open>The branded demonstration image: a logo of 408 by 7 pixels on 1024 by 1024.\<close>

lemma demo_branded:
  "apply_branding demo_env (demo_generator\<lparr>logo_path := Some ''assets/logo.png''\<rparr>) demo_image
   = \<lparr>img_width = 1024, img_height = 1024, img_mode = RGB,
      img_pixels =
        PxConvert RGB
          (PxPaste (PxConvert RGBA (PxNew ''#0066CC''))
             (PxLanczos (PxConvert RGBA (PxFile ''assets/logo.png'')) 102 1) 902 1003)\<rparr>"
  by (simp add: run_simps demo_simps float_simps Let_def)

text \<open>
  C7. The image returned by \<open>apply_branding\<close> has the width and the height of the input
  image, whatever the logo is: with a valid logo the result is the converted copy of the
  input on which the logo was pasted, in every other case it is the input.
\<close>

theorem apply_branding_keeps_size:
  "img_width (apply_branding ev self img) = img_width img
   \<and> img_height (apply_branding ev self img) = img_height img"
  by (auto simp: apply_branding_def overlay_logo_def convert_def paste_def copy_def Let_def
           split: option.splits sum.splits if_splits)

text \<open>With the valid logo of the demonstration the logo is pasted and the size stays.\<close>

theorem apply_branding_keeps_size_witness:
  "img_width (apply_branding demo_env (demo_generator\<lparr>logo_path := Some ''assets/logo.png''\<rparr>) demo_image) = 1024
   \<and> img_height (apply_branding demo_env (demo_generator\<lparr>logo_path := Some ''assets/logo.png''\<rparr>) demo_image) = 1024
   \<and> apply_branding demo_env (demo_generator\<lparr>logo_path := Some ''assets/logo.png''\<rparr>) demo_image \<noteq> demo_image"
  using apply_branding_keeps_size
    [of demo_env "demo_generator\<lparr>logo_path := Some ''assets/logo.png''\<rparr>" demo_image]
  by (simp add: demo_branded) (simp add: demo_image_def)

subsection \<open>Loading the configuration\<close>

text \<open>
  C4, as stated, fails: a configuration without colours and a configuration with two
  sizes of the same name are both loaded, no exception is raised, and with the second one
  a batch is processed and writes its files.
\<close>

theorem load_config_accepts_invalid:
  "load_config (Inr nocolor_config) =
     Inr \<lparr>config = nocolor_config, brand_colors = [], output_dir = ''generated_images'', logo_path = None\<rparr>
   \<and> load_config (Inr twin_config) =
     Inr \<lparr>config = twin_config, brand_colors = [''#0066CC'', ''#00A3E0'', ''#FFFFFF''],
          output_dir = ''generated_images'', logo_path = None\<rparr>
   \<and> (case fst (batch_process demo_env
            \<lparr>config = twin_config, brand_colors = [''#0066CC'', ''#00A3E0'', ''#FFFFFF''],
             output_dir = ''generated_images'', logo_path = None\<rparr>
            [PromptStr ''a''] demo_world) of
         Inl e \<Rightarrow> []
       | Inr rs \<Rightarrow> map (\<lambda>r. (r_prompt r, map v_size (r_variants r))) rs)
      = [(''a'', [''400x400'', ''600x200''])]"
  by (simp add: load_config_def nocolor_config_def twin_config_def run_simps demo_simps
        str_simps path_simps Let_def)

text \<open>
  C4, amended. \<open>load_config\<close> validates nothing: it raises exactly when one of the keys
  \<open>brand\<close>, \<open>brand.colors\<close>, \<open>storage\<close>, \<open>storage.output_directory\<close> is missing (or the file
  cannot be read), and otherwise returns the generator with the colours and the sizes as
  they are in the file. With an empty list of colours every prompt yields no result,
  because the \<^verbatim>\<open>IndexError\<close> is caught in \<open>generate_image_with_gemini\<close>.
\<close>

theorem load_config_checks_keys_only:
  "((\<exists>e. load_config (Inr c) = Inl e) \<longleftrightarrow>
      (brand c = None \<or> (\<exists>b. brand c = Some b \<and> colors b = None)
       \<or> storage c = None \<or> (\<exists>s. storage c = Some s \<and> output_directory s = None)))
   \<and> (brand c = Some b \<and> colors b = Some cs \<and> storage c = Some s \<and> output_directory s = Some d
        \<longrightarrow> load_config (Inr c) =
              Inr \<lparr>config = c, brand_colors = cs, output_dir = d, logo_path = brand_logo_path b\<rparr>)
   \<and> (brand_colors self = [] \<longrightarrow> process_prompt ev self p n w = (Inr None, w))"
  by (auto simp: load_config_def process_prompt_def generate_image_with_gemini_def
        create_base_image_def Let_def split: option.splits sum.splits)

theorem load_config_checks_keys_only_witness:
  "load_config (Inr twin_config) =
     Inr \<lparr>config = twin_config, brand_colors = [''#0066CC'', ''#00A3E0'', ''#FFFFFF''],
          output_dir = ''generated_images'', logo_path = None\<rparr>
   \<and> (\<exists>e. load_config (Inr (demo_config\<lparr>storage := None\<rparr>)) = Inl e)
   \<and> process_prompt demo_env (demo_generator\<lparr>brand_colors := []\<rparr>) ''a'' None demo_world
       = (Inr None, demo_world)"
  using load_config_checks_keys_only
    [of twin_config
        "\<lparr>colors = Some [''#0066CC'', ''#00A3E0'', ''#FFFFFF''], style_keywords = ''modern, clean'',
          brand_logo_path = None\<rparr>"
        "[''#0066CC'', ''#00A3E0'', ''#FFFFFF'']" "\<lparr>output_directory = Some ''generated_images''\<rparr>"
        "''generated_images''" "demo_generator\<lparr>brand_colors := []\<rparr>" demo_env "''a''" None demo_world]
    load_config_checks_keys_only
    [of "demo_config\<lparr>storage := None\<rparr>"
        "\<lparr>colors = Some [], style_keywords = [], brand_logo_path = None\<rparr>" "[]"
        "\<lparr>output_directory = None\<rparr>" "[]" demo_generator]
  by (simp add: twin_config_def demo_config_def)

subsection \<open>The variants of one export\<close>

lemma suffix_join_step: "suffix b (join_step a b)"
  by (simp add: join_step_def suffix_def)

lemma suffix_os_path_join: "suffix fn (os_path_join d [n, fn])"
  by (simp add: os_path_join_def suffix_join_step)

lemma variants_loop_Inr:
  "variants_loop ev self img pn ts szs acc w = (Inr vs, w') \<Longrightarrow>
   vs = acc @ map (\<lambda>sc. \<lparr>v_name = sz_name sc,
                          v_size = str_int (sz_width sc) @ ''x'' @ str_int (sz_height sc),
                          v_path = os_path_join (output_dir self) [sz_name sc, variant_filename self pn (sz_name sc) ts],
                          v_url = ''file://'' @ abspath ev (os_path_join (output_dir self)
                                     [sz_name sc, variant_filename self pn (sz_name sc) ts])\<rparr>) szs"
proof (induction szs arbitrary: acc w)
  case Nil
  then show ?case by simp
next
  case (Cons sc szs)
  let ?path = "os_path_join (output_dir self) [sz_name sc, variant_filename self pn (sz_name sc) ts]"
  let ?v = "\<lparr>v_name = sz_name sc,
             v_size = str_int (sz_width sc) @ ''x'' @ str_int (sz_height sc),
             v_path = ?path, v_url = ''file://'' @ abspath ev ?path\<rparr>"
  from Cons.prems obtain w1 where
    "variants_loop ev self img pn ts szs (acc @ [?v]) w1 = (Inr vs, w')"
    by (auto simp: Let_def split: sum.splits prod.splits)
  from Cons.IH [OF this] show ?case by simp
qed

lemma generate_variants_Inr:
  assumes "generate_variants ev self img pn w = (Inr vs, w')"
  shows "vs = map (\<lambda>sc. \<lparr>v_name = sz_name sc,
                          v_size = str_int (sz_width sc) @ ''x'' @ str_int (sz_height sc),
                          v_path = os_path_join (output_dir self)
                                     [sz_name sc, variant_filename self pn (sz_name sc) (strftime_stamp (clock ev (ticks w)))],
                          v_url = ''file://'' @ abspath ev (os_path_join (output_dir self)
                                     [sz_name sc, variant_filename self pn (sz_name sc) (strftime_stamp (clock ev (ticks w)))])\<rparr>)
                 (sizes (image_variants (config self)))"
  using assms variants_loop_Inr [of ev self img pn "strftime_stamp (clock ev (ticks w))"
      "sizes (image_variants (config self))" "[]" "w\<lparr>ticks := Suc (ticks w)\<rparr>" vs w']
  by (simp add: generate_variants_def datetime_now_def)

lemma demo_export:
  "generate_variants demo_env demo_generator demo_image ''summer_sale'' demo_world =
     (Inr demo_variants,
      \<lparr>ticks = 1, new_calls = 0,
        saved =
          [(''generated_images/thumbnail/summer_sale_thumbnail_20260102_030405.jpg'',
            \<lparr>img_width = 400, img_height = 400, img_mode = RGB,
               img_pixels = PxLanczos (PxNew ''#0066CC'') 400 400\<rparr>),
           (''generated_images/email_header/summer_sale_email_header_20260102_030405.jpg'',
            \<lparr>img_width = 600, img_height = 200, img_mode = RGB,
               img_pixels = PxLanczos (PxNew ''#0066CC'') 600 200\<rparr>)]\<rparr>)"
  by (simp add: demo_variants_def run_simps demo_simps str_simps path_simps Let_def)

text \<open>
  C8. When \<open>generate_variants\<close> returns, it returns one variant for each configured size, in
  the order of the configuration, and the path of each variant ends with the file name
  made of the prompt name, the name of the variant, the time stamp and the format; the
  time stamp is the one reading of the clock taken before the loop, the same for all
  variants of the call.
\<close>

theorem generate_variants_one_timestamp:
  assumes "generate_variants ev self img pn w = (Inr vs, w')"
  shows "\<exists>ts. ts = strftime_stamp (clock ev (ticks w))
           \<and> length vs = length (sizes (image_variants (config self)))
           \<and> (\<forall>k < length vs.
                 v_name (vs ! k) = sz_name (sizes (image_variants (config self)) ! k)
                 \<and> v_path (vs ! k) = os_path_join (output_dir self)
                      [v_name (vs ! k),
                       pn @ ''_'' @ v_name (vs ! k) @ ''_'' @ ts @ ''.'' @ format (image_variants (config self))]
                 \<and> suffix (pn @ ''_'' @ v_name (vs ! k) @ ''_'' @ ts @ ''.'' @ format (image_variants (config self)))
                      (v_path (vs ! k)))"
proof -
  define ts where "ts = strftime_stamp (clock ev (ticks w))"
  define szs where "szs = sizes (image_variants (config self))"
  define fname where "fname = (\<lambda>n. pn @ ''_'' @ n @ ''_'' @ ts @ ''.'' @ format (image_variants (config self)))"
  have vs: "vs = map (\<lambda>sc. \<lparr>v_name = sz_name sc,
                          v_size = str_int (sz_width sc) @ ''x'' @ str_int (sz_height sc),
                          v_path = os_path_join (output_dir self) [sz_name sc, fname (sz_name sc)],
                          v_url = ''file://'' @ abspath ev (os_path_join (output_dir self)
                                     [sz_name sc, fname (sz_name sc)])\<rparr>) szs"
    using generate_variants_Inr [OF assms]
    by (simp add: ts_def szs_def fname_def variant_filename_def)
  have len: "length vs = length szs" by (simp add: vs)
  have each: "v_name (vs ! k) = sz_name (szs ! k)
              \<and> v_path (vs ! k) = os_path_join (output_dir self) [v_name (vs ! k), fname (v_name (vs ! k))]
              \<and> suffix (fname (v_name (vs ! k))) (v_path (vs ! k))" if "k < length vs" for k
  proof -
    from that have k: "k < length szs" by (simp add: len)
    have "suffix (fname (sz_name (szs ! k)))
            (os_path_join (output_dir self) [sz_name (szs ! k), fname (sz_name (szs ! k))])"
      by (rule suffix_os_path_join)
    with k show ?thesis by (simp add: vs)
  qed
  from len each show ?thesis
    unfolding ts_def [symmetric] szs_def [symmetric] fname_def by blast
qed

text \<open>The two variants of the demonstration carry the same time stamp.\<close>

theorem generate_variants_one_timestamp_witness:
  "suffix ''summer_sale_thumbnail_20260102_030405.jpg'' (v_path (demo_variants ! 0))
   \<and> suffix ''summer_sale_email_header_20260102_030405.jpg'' (v_path (demo_variants ! 1))
   \<and> strftime_stamp (clock demo_env (ticks demo_world)) = ''20260102_030405''"
proof -
  from generate_variants_one_timestamp [OF demo_export]
  have *: "suffix (''summer_sale'' @ ''_'' @ v_name (demo_variants ! k) @ ''_''
                    @ strftime_stamp (clock demo_env (ticks demo_world)) @ ''.''
                    @ format (image_variants (config demo_generator)))
                  (v_path (demo_variants ! k))" if "k < length demo_variants" for k
    using that by blast
  have ts: "strftime_stamp (clock demo_env (ticks demo_world)) = ''20260102_030405''"
    by (simp add: strftime_stamp_def demo_simps str_simps)
  have fmt: "format (image_variants (config demo_generator)) = ''jpg''"
    by (simp add: demo_simps)
  have n: "v_name (demo_variants ! 0) = ''thumbnail''" "v_name (demo_variants ! Suc 0) = ''email_header''"
    "length demo_variants = 2"
    by (simp_all add: demo_variants_def)
  from * [of 0] * [of 1] show ?thesis
    by (simp add: ts fmt n)
qed




subsection \<open>A batch with failing provisions\<close>

lemma variants_loop_succeeds:
  assumes "\<forall>sc \<in> set szs. 1 \<le> sz_width sc \<and> 1 \<le> sz_height sc"
    and "\<forall>path. write_fault ev path = None"
  shows "\<exists>vs w'. variants_loop ev self img pn ts szs acc w = (Inr vs, w')
           \<and> new_calls w' = new_calls w \<and> ticks w' = ticks w"
  using assms(1)
proof (induction szs arbitrary: acc w)
  case Nil
  then show ?case by simp
next
  case (Cons sc szs)
  let ?path = "os_path_join (output_dir self) [sz_name sc, variant_filename self pn (sz_name sc) ts]"
  let ?acc = "acc @ [\<lparr>v_name = sz_name sc,
                      v_size = str_int (sz_width sc) @ ''x'' @ str_int (sz_height sc),
                      v_path = ?path, v_url = ''file://'' @ abspath ev ?path\<rparr>]"
  obtain r where r: "resize img (sz_width sc, sz_height sc) = Inr r"
    using Cons.prems by (simp add: resize_def)
  let ?w = "w\<lparr>saved := saved w @ [(?path, r)]\<rparr>"
  have step: "variants_loop ev self img pn ts (sc # szs) acc w
              = variants_loop ev self img pn ts szs ?acc ?w"
    using assms(2) by (simp add: r save_def Let_def)
  from Cons.prems have "\<forall>sc \<in> set szs. 1 \<le> sz_width sc \<and> 1 \<le> sz_height sc" by simp
  from Cons.IH [OF this, of ?acc ?w] show ?case
    unfolding step by simp
qed

lemma generate_variants_succeeds:
  assumes "\<forall>sc \<in> set (sizes (image_variants (config self))). 1 \<le> sz_width sc \<and> 1 \<le> sz_height sc"
    and "\<forall>path. write_fault ev path = None"
  shows "\<exists>vs w'. generate_variants ev self img pn w = (Inr vs, w') \<and> new_calls w' = new_calls w"
  using variants_loop_succeeds [OF assms, of self img pn "strftime_stamp (clock ev (ticks w))" "[]"
      "w\<lparr>ticks := Suc (ticks w)\<rparr>"]
  by (auto simp: generate_variants_def datetime_now_def)

lemma generate_image_outcome:
  assumes "brand (config self) = Some b" and "brand_colors self = c # cs"
  shows "\<exists>w'. new_calls w' = Suc (new_calls w)
           \<and> (if new_fault ev (new_calls w) c = None
               then \<exists>img. generate_image_with_gemini ev self p w = (Some img, w')
               else generate_image_with_gemini ev self p w = (None, w'))"
  using assms
  by (auto simp: generate_image_with_gemini_def enhance_prompt_with_brand_def
        create_base_image_def Image_new_def Let_def split: option.splits)

lemma process_prompt_outcome:
  assumes "brand (config self) = Some b" and "brand_colors self = c # cs"
    and "\<forall>sc \<in> set (sizes (image_variants (config self))). 1 \<le> sz_width sc \<and> 1 \<le> sz_height sc"
    and "\<forall>path. write_fault ev path = None"
  shows "\<exists>w'. new_calls w' = Suc (new_calls w)
           \<and> (if new_fault ev (new_calls w) c = None
               then \<exists>r. process_prompt ev self p n w = (Inr (Some r), w') \<and> r_prompt r = p
               else process_prompt ev self p n w = (Inr None, w'))"
proof -
  from generate_image_outcome [OF assms(1,2), of w ev p] obtain w1 where
    w1: "new_calls w1 = Suc (new_calls w)"
    and g: "if new_fault ev (new_calls w) c = None
            then \<exists>img. generate_image_with_gemini ev self p w = (Some img, w1)
            else generate_image_with_gemini ev self p w = (None, w1)"
    by blast
  show ?thesis
  proof (cases "new_fault ev (new_calls w) c = None")
    case False
    with g have "process_prompt ev self p n w = (Inr None, w1)"
      by (simp add: process_prompt_def Let_def)
    with False w1 show ?thesis by auto
  next
    case True
    with g obtain img where img: "generate_image_with_gemini ev self p w = (Some img, w1)"
      by auto
    from generate_variants_succeeds [OF assms(3,4), of "apply_branding ev self img"
        "resolve_prompt_name p n" w1]
    obtain vs w2 where v: "generate_variants ev self (apply_branding ev self img)
        (resolve_prompt_name p n) w1 = (Inr vs, w2)" and w2: "new_calls w2 = new_calls w1"
      by blast
    have "process_prompt ev self p n w =
            (Inr (Some \<lparr>r_prompt = p, r_timestamp = isoformat (clock ev (ticks w2)), r_variants = vs\<rparr>),
             w2\<lparr>ticks := Suc (ticks w2)\<rparr>)"
      by (simp add: process_prompt_def Let_def img v datetime_now_def)
    with True w1 w2 show ?thesis by auto
  qed
qed

lemma batch_loop_results:
  assumes "brand (config self) = Some b" and "brand_colors self = c # cs"
    and "\<forall>sc \<in> set (sizes (image_variants (config self))). 1 \<le> sz_width sc \<and> 1 \<le> sz_height sc"
    and "\<forall>path. write_fault ev path = None"
    and "\<forall>(i, pd) \<in> set ips. prompt_text pd \<noteq> None"
  shows "\<exists>rs w'. batch_loop ev self ips acc w = (Inr (acc @ rs), w')
           \<and> map r_prompt rs =
               map (\<lambda>(i, pd). the (prompt_text pd)) (nths ips {k. new_fault ev (new_calls w + k) c = None})"
  using assms(5)
proof (induction ips arbitrary: acc w)
  case Nil
  then show ?case by simp
next
  case (Cons ipd ips)
  obtain i pd where ipd: "ipd = (i, pd)" by (cases ipd)
  with Cons.prems obtain p where p: "prompt_text pd = Some p" by auto
  then obtain n where pn: "prompt_and_name i pd = Inr (p, n)"
    by (auto simp: prompt_text_def prompt_and_name_def split: prompt_data.splits)
  from process_prompt_outcome [OF assms(1-4), of w p "Some n"] obtain w1 where
    w1: "new_calls w1 = Suc (new_calls w)"
    and pp: "if new_fault ev (new_calls w) c = None
             then \<exists>r. process_prompt ev self p (Some n) w = (Inr (Some r), w1) \<and> r_prompt r = p
             else process_prompt ev self p (Some n) w = (Inr None, w1)"
    by blast
  from Cons.prems have rest: "\<forall>(i, pd) \<in> set ips. prompt_text pd \<noteq> None" by simp
  have shift: "{j. new_fault ev (Suc (new_calls w + j)) c = None} = {k. new_fault ev (new_calls w1 + k) c = None}"
    by (simp add: w1)
  show ?case
  proof (cases "new_fault ev (new_calls w) c = None")
    case True
    with pp obtain r where r: "process_prompt ev self p (Some n) w = (Inr (Some r), w1)" "r_prompt r = p"
      by auto
    from Cons.IH [OF rest, of "acc @ [r]" w1] obtain rs w' where
      "batch_loop ev self ips (acc @ [r]) w1 = (Inr ((acc @ [r]) @ rs), w')"
      "map r_prompt rs = map (\<lambda>(i, pd). the (prompt_text pd)) (nths ips {k. new_fault ev (new_calls w1 + k) c = None})"
      by blast
    with True r p show ?thesis
      by (intro exI [of _ "r # rs"] exI [of _ w']) (simp add: ipd pn nths_Cons shift)
  next
    case False
    with pp have r: "process_prompt ev self p (Some n) w = (Inr None, w1)" by simp
    from Cons.IH [OF rest, of acc w1] obtain rs w' where
      "batch_loop ev self ips acc w1 = (Inr (acc @ rs), w')"
      "map r_prompt rs = map (\<lambda>(i, pd). the (prompt_text pd)) (nths ips {k. new_fault ev (new_calls w1 + k) c = None})"
      by blast
    with False r show ?thesis
      by (intro exI [of _ rs] exI [of _ w']) (simp add: ipd pn nths_Cons shift)
  qed
qed

text \<open>
  C2. Let the configuration have a brand section and at least one colour, let every entry
  of the batch have a prompt, and let no export fail (every size is at least one pixel
  wide and high, no write is refused). Then \<open>batch_process\<close> returns a list of results, and
  the prompts of the results are, in the order of the input, exactly the prompts of the
  entries for which the base image was provided: the entry at position \<open>k\<close> is provided
  unless the call of \<^verbatim>\<open>Image.new\<close> made for it fails. A failed provision yields no result
  and the batch goes on.
\<close>

theorem batch_process_skips_failed:
  assumes "brand (config self) = Some b" and "brand_colors self = c # cs"
    and "\<forall>sc \<in> set (sizes (image_variants (config self))). 1 \<le> sz_width sc \<and> 1 \<le> sz_height sc"
    and "\<forall>path. write_fault ev path = None"
    and "\<forall>pd \<in> set prompts. prompt_text pd \<noteq> None"
  shows "\<exists>rs w'. batch_process ev self prompts w = (Inr rs, w')
           \<and> map r_prompt rs =
               map (\<lambda>pd. the (prompt_text pd)) (nths prompts {k. new_fault ev (new_calls w + k) c = None})"
proof -
  have "\<forall>(i, pd) \<in> set (enumerate 1 prompts). prompt_text pd \<noteq> None"
    using assms(5) by (auto simp: in_set_enumerate_eq)
  from batch_loop_results [OF assms(1-4) this, of "[]" w] obtain rs w' where
    run: "batch_loop ev self (enumerate 1 prompts) [] w = (Inr rs, w')"
    and rs: "map r_prompt rs = map (\<lambda>(i, pd). the (prompt_text pd))
               (nths (enumerate 1 prompts) {k. new_fault ev (new_calls w + k) c = None})"
    by auto
  have "map (\<lambda>(i, pd). the (prompt_text pd)) (nths (enumerate 1 prompts) A)
        = map (\<lambda>pd. the (prompt_text pd)) (nths prompts A)" for A
  proof -
    have "map (\<lambda>(i, pd). the (prompt_text pd)) (nths (enumerate 1 prompts) A)
          = map (\<lambda>pd. the (prompt_text pd)) (map snd (nths (enumerate 1 prompts) A))"
      by (simp add: case_prod_beta comp_def)
    also have "map snd (nths (enumerate 1 prompts) A) = nths (map snd (enumerate 1 prompts)) A"
      by (simp only: nths_map)
    finally show ?thesis by simp
  qed
  with run rs show ?thesis by (auto simp: batch_process_def)
qed

text \<open>Three prompts, the provision of the second fails: two results, in order.\<close>

theorem batch_process_skips_failed_witness:
  "\<exists>rs w'. batch_process flaky_env demo_generator
              [PromptStr ''a'', PromptStr ''b'', PromptStr ''c''] demo_world = (Inr rs, w')
           \<and> map r_prompt rs = [''a'', ''c'']"
proof -
  have h1: "brand (config demo_generator) =
              Some \<lparr>colors = Some [''#0066CC'', ''#00A3E0'', ''#FFFFFF''],
                    style_keywords = ''modern, clean'', brand_logo_path = None\<rparr>"
    by (simp add: demo_simps)
  have h2: "brand_colors demo_generator = ''#0066CC'' # [''#00A3E0'', ''#FFFFFF'']"
    by (simp add: demo_simps)
  have h3: "\<forall>sc \<in> set (sizes (image_variants (config demo_generator))). 1 \<le> sz_width sc \<and> 1 \<le> sz_height sc"
    by (simp add: demo_simps)
  have h4: "\<forall>path. write_fault flaky_env path = None"
    by (simp add: demo_simps)
  have h5: "\<forall>pd \<in> set [PromptStr ''a'', PromptStr ''b'', PromptStr ''c'']. prompt_text pd \<noteq> None"
    by (simp add: prompt_text_def)
  have sel: "nths [PromptStr ''a'', PromptStr ''b'', PromptStr ''c'']
               {k. new_fault flaky_env (new_calls demo_world + k) ''#0066CC'' = None}
             = [PromptStr ''a'', PromptStr ''c'']"
    by (simp add: nths_Cons flaky_env_def demo_env_def demo_world_def)
  from batch_process_skips_failed [OF h1 h2 h3 h4 h5, of demo_world] show ?thesis
    by (simp add: sel prompt_text_def)
qed

subsection \<open>A failure of the export\<close>

text \<open>
  C3, as stated, fails: when the directory of the second variant cannot be written, the
  export of the first prompt raises, and so does \<open>batch_process\<close>: it returns no results,
  and the second prompt is not processed (the only file written is the first variant of
  the first prompt).
\<close>

theorem export_error_stops_batch:
  "fst (batch_process readonly_env demo_generator [PromptStr ''a'', PromptStr ''b''] demo_world)
     = Inl (OSError ''Permission denied'')
   \<and> map fst (saved (snd (batch_process readonly_env demo_generator
                             [PromptStr ''a'', PromptStr ''b''] demo_world)))
     = [''generated_images/thumbnail/prompt_1_thumbnail_20260102_030405.jpg'']"
  by (simp add: run_simps demo_simps str_simps path_simps Let_def)

text \<open>The loop of a batch after a prefix that was processed without an exception.\<close>

lemma batch_loop_append:
  "batch_loop ev self xs acc w = (Inr rs, w1)
   \<Longrightarrow> batch_loop ev self (xs @ ys) acc w = batch_loop ev self ys rs w1"
proof (induction xs arbitrary: acc w)
  case Nil
  then show ?case by simp
next
  case (Cons x xs)
  obtain i pd where x: "x = (i, pd)" by (cases x)
  from Cons.prems show ?case
    by (auto simp: x Cons.IH split: sum.splits prod.splits option.splits)
qed

lemma batch_process_at:
  assumes "batch_process ev self pre w = (Inr rs, w1)"
  shows "batch_process ev self (pre @ pd # post) w
         = batch_loop ev self ((length pre + 1, pd) # enumerate (length pre + 2) post) rs w1"
proof -
  have "enumerate 1 (pre @ pd # post)
        = enumerate 1 pre @ (length pre + 1, pd) # enumerate (length pre + 2) post"
    by (simp add: enumerate_append_eq)
  with assms show ?thesis
    by (simp add: batch_process_def batch_loop_append del: batch_loop.simps)
qed


text \<open>A refused write leaves the loop of the export, after the writes that came before it.\<close>

lemma variants_loop_write_fault:
  assumes "\<forall>s \<in> set before. 1 \<le> sz_width s \<and> 1 \<le> sz_height s
              \<and> write_fault ev (os_path_join (output_dir self) [sz_name s, variant_filename self pn (sz_name s) ts]) = None"
    and "1 \<le> sz_width sc \<and> 1 \<le> sz_height sc"
    and "write_fault ev (os_path_join (output_dir self) [sz_name sc, variant_filename self pn (sz_name sc) ts]) = Some e"
  shows "\<exists>w'. variants_loop ev self img pn ts (before @ sc # after) acc w = (Inl e, w')
           \<and> new_calls w' = new_calls w
           \<and> map fst (saved w') = map fst (saved w)
               @ map (\<lambda>s. os_path_join (output_dir self) [sz_name s, variant_filename self pn (sz_name s) ts]) before"
  using assms(1)
proof (induction before arbitrary: acc w)
  case Nil
  with assms(2,3) show ?case by (simp add: resize_def save_def Let_def)
next
  case (Cons s before)
  let ?path = "os_path_join (output_dir self) [sz_name s, variant_filename self pn (sz_name s) ts]"
  let ?acc = "acc @ [\<lparr>v_name = sz_name s,
                      v_size = str_int (sz_width s) @ ''x'' @ str_int (sz_height s),
                      v_path = ?path, v_url = ''file://'' @ abspath ev ?path\<rparr>]"
  obtain r where r: "resize img (sz_width s, sz_height s) = Inr r"
    using Cons.prems by (simp add: resize_def)
  let ?w = "w\<lparr>saved := saved w @ [(?path, r)]\<rparr>"
  have step: "variants_loop ev self img pn ts ((s # before) @ sc # after) acc w
              = variants_loop ev self img pn ts (before @ sc # after) ?acc ?w"
    using Cons.prems by (simp add: r save_def Let_def)
  from Cons.prems have "\<forall>s \<in> set before. 1 \<le> sz_width s \<and> 1 \<le> sz_height s
      \<and> write_fault ev (os_path_join (output_dir self) [sz_name s, variant_filename self pn (sz_name s) ts]) = None"
    by simp
  from Cons.IH [OF this, of ?acc ?w] show ?case
    unfolding step by simp
qed

text \<open>
  C3, amended. Let the entries before one entry of a batch be processed without an
  exception, let the base image of that entry be provided, and let the file system refuse
  the write of one variant, the variants before it having been written. Then
  \<open>generate_variants\<close> raises the error of that write and returns no variants, and
  \<open>process_prompt\<close> and \<open>batch_process\<close> raise the same error in the same world: the entries
  after it are not processed (no further call of \<^verbatim>\<open>Image.new\<close>, no further file), and
  the results collected so far are not returned. The files written before the refused
  write stay.
\<close>

theorem write_fault_aborts_batch:
  fixes ev self prompt name w2
  defines "path \<equiv> (\<lambda>s. os_path_join (output_dir self)
                      [sz_name s, variant_filename self (resolve_prompt_name prompt (Some name))
                                    (sz_name s) (strftime_stamp (clock ev (ticks w2)))])"
  assumes "batch_process ev self pre w = (Inr rs, w1)"
    and "prompt_and_name (length pre + 1) pd = Inr (prompt, name)"
    and "generate_image_with_gemini ev self prompt w1 = (Some base_image, w2)"
    and "sizes (image_variants (config self)) = before @ sc # after"
    and "\<forall>s \<in> set before. 1 \<le> sz_width s \<and> 1 \<le> sz_height s \<and> write_fault ev (path s) = None"
    and "1 \<le> sz_width sc \<and> 1 \<le> sz_height sc"
    and "write_fault ev (path sc) = Some e"
  shows "\<exists>w'. generate_variants ev self (apply_branding ev self base_image)
                 (resolve_prompt_name prompt (Some name)) w2 = (Inl e, w')
           \<and> process_prompt ev self prompt (Some name) w1 = (Inl e, w')
           \<and> batch_process ev self (pre @ pd # post) w = (Inl e, w')
           \<and> new_calls w' = new_calls w2
           \<and> map fst (saved w') = map fst (saved w2) @ map path before"
proof -
  let ?pn = "resolve_prompt_name prompt (Some name)"
  let ?ts = "strftime_stamp (clock ev (ticks w2))"
  from variants_loop_write_fault [of before ev self ?pn ?ts sc e "apply_branding ev self base_image"
      after "[]" "w2\<lparr>ticks := Suc (ticks w2)\<rparr>"] assms(6,7,8)
  obtain w' where
    loop: "variants_loop ev self (apply_branding ev self base_image) ?pn ?ts (before @ sc # after) []
             (w2\<lparr>ticks := Suc (ticks w2)\<rparr>) = (Inl e, w')"
    and nc: "new_calls w' = new_calls w2"
    and sv: "map fst (saved w') = map fst (saved w2) @ map path before"
    unfolding path_def by auto
  have gv: "generate_variants ev self (apply_branding ev self base_image) ?pn w2 = (Inl e, w')"
    using loop assms(5) by (simp add: generate_variants_def datetime_now_def)
  have pp: "process_prompt ev self prompt (Some name) w1 = (Inl e, w')"
    using assms(4) gv by (simp add: process_prompt_def Let_def)
  have "batch_process ev self (pre @ pd # post) w = (Inl e, w')"
    using batch_process_at [OF assms(2), of pd post] assms(3) pp by simp
  with gv pp nc sv show ?thesis by blast
qed

text \<open>Two prompts, the directory of the second variant is not writable.\<close>

theorem write_fault_aborts_batch_witness:
  "\<exists>w'. batch_process readonly_env demo_generator ([] @ PromptStr ''a'' # [PromptStr ''b'']) demo_world
            = (Inl (OSError ''Permission denied''), w')
        \<and> new_calls w' = 1
        \<and> map fst (saved w') = [''generated_images/thumbnail/prompt_1_thumbnail_20260102_030405.jpg'']"
proof -
  define img where "img = \<lparr>img_width = 1024, img_height = 1024, img_mode = RGB,
      img_pixels = PxText (draw_rows (PxNew ''#0066CC'') ''#0066CC'' 1024) ''Generated Image'' ''white''\<rparr>"
  define w1 where "w1 = \<lparr>ticks = 0, new_calls = Suc 0, saved = []\<rparr>"
  have h1: "batch_process readonly_env demo_generator [] demo_world = (Inr [], demo_world)"
    by (simp add: batch_process_def)
  have h2: "prompt_and_name (length ([] :: prompt_data list) + 1) (PromptStr ''a'') = Inr (''a'', ''prompt_1'')"
    by (simp add: prompt_and_name_def str_simps)
  have h3: "generate_image_with_gemini readonly_env demo_generator ''a'' demo_world = (Some img, w1)"
    by (simp add: img_def w1_def run_simps demo_simps Let_def)
  have h4: "sizes (image_variants (config demo_generator))
            = [\<lparr>sz_name = ''thumbnail'', sz_width = 400, sz_height = 400\<rparr>]
              @ \<lparr>sz_name = ''email_header'', sz_width = 600, sz_height = 200\<rparr> # []"
    by (simp add: demo_simps)
  have h5: "\<forall>s \<in> set [\<lparr>sz_name = ''thumbnail'', sz_width = 400, sz_height = 400\<rparr>].
              1 \<le> sz_width s \<and> 1 \<le> sz_height s
              \<and> write_fault readonly_env (os_path_join (output_dir demo_generator)
                   [sz_name s, variant_filename demo_generator (resolve_prompt_name ''a'' (Some ''prompt_1''))
                                 (sz_name s) (strftime_stamp (clock readonly_env (ticks w1)))]) = None"
    by (simp add: w1_def run_simps demo_simps str_simps path_simps)
  have h6: "1 \<le> sz_width \<lparr>sz_name = ''email_header'', sz_width = 600, sz_height = 200\<rparr>
            \<and> 1 \<le> sz_height \<lparr>sz_name = ''email_header'', sz_width = 600, sz_height = 200\<rparr>"
    by simp
  have h7: "write_fault readonly_env (os_path_join (output_dir demo_generator)
              [sz_name \<lparr>sz_name = ''email_header'', sz_width = 600, sz_height = 200\<rparr>,
               variant_filename demo_generator (resolve_prompt_name ''a'' (Some ''prompt_1''))
                 (sz_name \<lparr>sz_name = ''email_header'', sz_width = 600, sz_height = 200\<rparr>)
                 (strftime_stamp (clock readonly_env (ticks w1)))])
            = Some (OSError ''Permission denied'')"
    by (simp add: w1_def run_simps demo_simps str_simps path_simps)
  from write_fault_aborts_batch [OF h1 h2 h3 h4 h5 h6 h7, of "[PromptStr ''b'']"] show ?thesis
    by (simp add: w1_def run_simps demo_simps str_simps path_simps)
qed

subsection \<open>Names in a batch\<close>




subsection \<open>The size of the logo\<close>

text \<open>
  C6, as stated, fails: on the base image of 1024 by 1024 pixels a logo of 408 by 7 pixels
  is resampled to 102 by 1 pixels. Ten times 102 is not 1024, and the proportional height
  \<open>7 * 102 / 408 = 1.75\<close> has the nearest integer 2, not 1.
\<close>

theorem logo_not_tenth_nor_nearest:
  "img_pixels (apply_branding demo_env (demo_generator\<lparr>logo_path := Some ''assets/logo.png''\<rparr>) demo_image)
     = PxConvert RGB
         (PxPaste (PxConvert RGBA (PxNew ''#0066CC''))
            (PxLanczos (PxConvert RGBA (PxFile ''assets/logo.png'')) 102 1) 902 1003)
   \<and> 10 * (102 :: nat) \<noteq> img_width demo_image
   \<and> round_half_even (img_height demo_logo * 102) (img_width demo_logo) = 2"
  by (simp add: demo_branded) (simp add: demo_image_def demo_logo_def round_half_even_def)

text \<open>
  C6, amended. For a logo that opens as an image of positive width, the logo width is the
  base width divided by ten and rounded down, and the logo height is the product of the
  logo's height and the quotient of the two widths, computed in binary64 and truncated.
  When both are at least one, the logo is resampled to this size and pasted 20 pixels
  from the right and from the lower edge; otherwise the input image is returned.
\<close>

theorem apply_branding_logo_size:
  assumes "logo_path self = Some p" and "p \<noteq> []" and "path_exists ev p"
    and "image_open ev p = Inr opened" and "0 < img_width opened"
  shows "let logo_width = img_width img div 10;
             logo_height = int_of_double (mul_int_double (img_height opened)
                              (truediv logo_width (img_width opened)))
         in 10 * logo_width \<le> img_width img \<and> img_width img < 10 * logo_width + 10
            \<and> (if 1 \<le> logo_width \<and> 1 \<le> logo_height
                then img_mode (apply_branding ev self img) = RGB
                     \<and> img_pixels (apply_branding ev self img) =
                         PxConvert RGB
                           (PxPaste (PxConvert RGBA (img_pixels img))
                              (PxLanczos (PxConvert RGBA (img_pixels opened)) logo_width logo_height)
                              (int (img_width img) - int logo_width - 20)
                              (int (img_height img) - int logo_height - 20))
                else apply_branding ev self img = img)"
proof -
  have "10 * (img_width img div 10) \<le> img_width img" "img_width img < 10 * (img_width img div 10) + 10"
    by presburger+
  then show ?thesis
    using assms
    by (simp add: apply_branding_def overlay_logo_def convert_def copy_def paste_def resize_def Let_def)
qed

theorem apply_branding_logo_size_witness:
  "10 * (102 :: nat) \<le> 1024 \<and> (1024 :: nat) < 10 * 102 + 10
   \<and> img_pixels (apply_branding demo_env (demo_generator\<lparr>logo_path := Some ''assets/logo.png''\<rparr>) demo_image)
     = PxConvert RGB
         (PxPaste (PxConvert RGBA (PxNew ''#0066CC''))
            (PxLanczos (PxConvert RGBA (PxFile ''assets/logo.png'')) 102 1) 902 1003)"
proof -
  have h: "logo_path (demo_generator\<lparr>logo_path := Some ''assets/logo.png''\<rparr>) = Some ''assets/logo.png''"
    "''assets/logo.png'' \<noteq> []" "path_exists demo_env ''assets/logo.png''"
    "image_open demo_env ''assets/logo.png'' = Inr demo_logo" "0 < img_width demo_logo"
    by (simp_all add: demo_env_def demo_logo_def)
  have fl: "int_of_double (mul_int_double 7 (truediv 102 408)) = 1"
    by (simp add: float_simps Let_def)
  from apply_branding_logo_size [OF h, of demo_image] show ?thesis
    by (simp add: demo_image_def demo_logo_def fl Let_def)
qed

text \<open>
  The height is computed in floating point: for a square logo of 21 pixels the quotient
  \<open>102 / 21\<close> is rounded down, and the product is truncated to 101, not 102.
\<close>

lemma binary64_height_example:
  "int_of_double (mul_int_double 21 (truediv 102 21)) = 101"
  "int_of_double (mul_int_double 99 (truediv 102 100)) = 100"
  by (simp_all add: float_simps Let_def)

end
